theory Spec2Isabelle
  imports Main
begin

section \<open>Python strings\<close>

text \<open>
  A Python \<open>str\<close> is a sequence of code points. The embedding uses \<^typ>\<open>string\<close>, whose
  characters are read as the code points 0 to 255 (ASCII and Latin-1); code points above
  255 are outside the embedding.
\<close>

definition py_isspace :: "char \<Rightarrow> bool" where
  \<comment> \<open>the characters \<open>str.split()\<close> treats as whitespace, among the code points below 256\<close>
  "py_isspace c =
     (let n = (of_char c :: nat)
      in (9 \<le> n \<and> n \<le> 13) \<or> (28 \<le> n \<and> n \<le> 32) \<or> n = 133 \<or> n = 160)"

fun split_from :: "string \<Rightarrow> string \<Rightarrow> string list" where
  "split_from cur [] = (if cur = [] then [] else [cur])"
| "split_from cur (c # cs) =
     (if py_isspace c
      then (if cur = [] then split_from [] cs else cur # split_from [] cs)
      else split_from (cur @ [c]) cs)"

definition py_split :: "string \<Rightarrow> string list" where
  \<comment> \<open>\<open>s.split()\<close>: runs of whitespace separate the tokens, no token is empty\<close>
  "py_split s = split_from [] s"

definition lower_char :: "char \<Rightarrow> char" where
  "lower_char c =
     (let n = (of_char c :: nat)
      in if (65 \<le> n \<and> n \<le> 90) \<or> (192 \<le> n \<and> n \<le> 222 \<and> n \<noteq> 215)
         then char_of (n + 32) else c)"

definition py_lower :: "string \<Rightarrow> string" where
  \<comment> \<open>\<open>s.lower()\<close>\<close>
  "py_lower s = map lower_char s"

fun py_replace :: "string \<Rightarrow> string \<Rightarrow> string \<Rightarrow> string" where
  \<comment> \<open>\<open>s.replace(old, new)\<close> for a non-empty \<open>old\<close>: every occurrence, leftmost first,
      without overlap\<close>
  "py_replace old new [] = []"
| "py_replace old new (c # cs) =
     (if take (length old) (c # cs) = old
      then new @ py_replace old new (drop (length old - 1) cs)
      else c # py_replace old new cs)"

fun py_join :: "string \<Rightarrow> string list \<Rightarrow> string" where
  \<comment> \<open>\<open>sep.join(parts)\<close>\<close>
  "py_join sep [] = []"
| "py_join sep [p] = p"
| "py_join sep (p # q # ps) = p @ sep @ py_join sep (q # ps)"

section \<open>Requests, responses and exceptions\<close>

datatype user = AnonymousUser | User (superuser_flag: bool)

fun is_superuser :: "user \<Rightarrow> bool" where
  \<comment> \<open>\<open>AnonymousUser.is_superuser\<close> is the constant \<open>False\<close> in Django\<close>
  "is_superuser AnonymousUser = False"
| "is_superuser (User su) = su"

datatype token = Token string

datatype body = Undecodable | Json "(string \<times> (string \<times> string) list) list"

record request =
  user :: user
  auth :: "token option"
  GET_args :: "string option"
  body :: body

datatype exn =
    IndexError
  | KeyError
  | JSONDecodeError
  | NoReverseMatch
  | DoesNotExist
  | MultipleObjectsReturned
  | AttributeError
  | UnboundLocalError
  | BackendError

text \<open>
  Modelled from the spec: the serializers of \<open>api.serializers.misc\<close>
  (\<open>AuthRequiredSerializer\<close>, \<open>ErrorMessage\<close>, \<open>InputSerializer\<close>) are not among the
  sources. A response is the
  authentication-required message, an error message with its text, the description of
  an input form (fields, submit path, field order), the table the \<open>post\<close> methods build
  themselves (header and rows), or a redirect to a path.
\<close>

record row =
  objects :: string
  count :: nat

datatype response =
    AuthRequired
  | ErrorMessage string
  | Input "(string \<times> (string \<times> string) list) list" string "string list"
  | Table "(string \<times> string) list" "row list"
  | Redirect string

section \<open>The command classes and their routes\<close>

datatype view =
    DeleteCommand
  | DeleteMachineCommand
  | DeleteSerialConsoleCommand
  | DeleteRemotePowerCommand

definition MACHINE :: string where "MACHINE = ''machine''"
definition SERIALCONSOLE :: string where "SERIALCONSOLE = ''serialconsole''"
definition REMOTEPOWER :: string where "REMOTEPOWER = ''remotepower''"

definition as_list :: "string list" where
  "as_list = [MACHINE, SERIALCONSOLE, REMOTEPOWER]"

definition get_tabcompletion :: "string list" where
  "get_tabcompletion = as_list"

fun URL_POST :: "view \<Rightarrow> string" where
  "URL_POST DeleteCommand = ''/delete''"
| "URL_POST DeleteMachineCommand = ''/machine/delete''"
| "URL_POST DeleteSerialConsoleCommand = ''/serialconsole/delete''"
| "URL_POST DeleteRemotePowerCommand = ''/remotepower/delete''"

fun get_urls :: "view \<Rightarrow> (string \<times> view \<times> string) list" where
  \<comment> \<open>each class registers one route: regular expression, view, route name\<close>
  "get_urls DeleteCommand = [(''^delete$'', DeleteCommand, ''delete'')]"
| "get_urls DeleteMachineCommand =
     [(''^machine/delete'', DeleteMachineCommand, ''machine_delete'')]"
| "get_urls DeleteSerialConsoleCommand =
     [(''^serialconsole/delete'', DeleteSerialConsoleCommand, ''serialconsole_delete'')]"
| "get_urls DeleteRemotePowerCommand =
     [(''^remotepower/delete'', DeleteRemotePowerCommand, ''remotepower_delete'')]"

definition urlpatterns :: "(string \<times> view \<times> string) list" where
  "urlpatterns =
     concat (map get_urls
       [DeleteCommand, DeleteMachineCommand, DeleteSerialConsoleCommand,
        DeleteRemotePowerCommand])"

definition pattern_path :: "string \<Rightarrow> string" where
  \<comment> \<open>the path a literal pattern stands for, relative to the root the routes are mounted at\<close>
  "pattern_path r = CHR ''/'' # filter (\<lambda>c. c \<noteq> CHR ''^'' \<and> c \<noteq> CHR ''$'') r"

definition reverse :: "string \<Rightarrow> exn + string" where
  \<comment> \<open>\<open>reverse('api:<name>')\<close> over the routes of this module\<close>
  "reverse name =
     (case find (\<lambda>(r, v, n). ''api:'' @ n = name) urlpatterns of
        None \<Rightarrow> Inl NoReverseMatch
      | Some (r, v, n) \<Rightarrow> Inr (pattern_path r))"

definition redirect :: "exn + string \<Rightarrow> exn + response" where
  "redirect target = (case target of Inl e \<Rightarrow> Inl e | Inr url \<Rightarrow> Inr (Redirect url))"

definition resolve :: "string \<Rightarrow> view option" where
  \<comment> \<open>the view a path is routed to: the first route whose pattern matches\<close>
  "resolve path =
     map_option (\<lambda>(r, v, n). v)
       (find (\<lambda>(r, v, n).
          if r \<noteq> [] \<and> last r = CHR ''$'' then pattern_path r = path
          else take (length (pattern_path r)) path = pattern_path r) urlpatterns)"

section \<open>The dispatcher\<close>

definition quoted :: "string \<Rightarrow> string" where
  "quoted s = [CHR 0x27] @ s @ [CHR 0x27]"

definition DeleteCommand_get :: "request \<Rightarrow> exn + response" where
  "DeleteCommand_get request =
     (case GET_args request of
        None \<Rightarrow> Inr (ErrorMessage ''Item is missing!'')
      | Some arguments \<Rightarrow>
          if arguments = [] then Inr (ErrorMessage ''Item is missing!'')
          else
            (case py_split arguments of
               [] \<Rightarrow> Inl IndexError
             | tok # sub_arguments \<Rightarrow>
                 let item = py_lower tok in
                 if item = MACHINE then
                   (if length sub_arguments \<noteq> 0
                    then Inr (ErrorMessage ''Invalid number of arguments for 'machine'!'')
                    else redirect (reverse ''api:machine_delete''))
                 else if item = SERIALCONSOLE then
                   (if length sub_arguments \<noteq> 0
                    then Inr (ErrorMessage ''Invalid number of arguments for 'serialconsole'!'')
                    else redirect (reverse ''api:serialconsole_delete''))
                 else if item = REMOTEPOWER then
                   (if length sub_arguments \<noteq> 0
                    then Inr (ErrorMessage ''Invalid number of arguments for 'remotepower'!'')
                    else redirect (reverse ''api:remotepower_delete''))
                 else Inr (ErrorMessage (''Unknown item '' @ quoted item @ ''!''))))"

section \<open>Forms\<close>

text \<open>
  Modelled from the spec: the module \<open>api.forms\<close> is not among the sources. A form is the
  ordered list of its field specifications (key, label, type, required, validators).
\<close>

record field_spec =
  field_key :: string
  field_label :: string
  field_type :: string
  field_required :: bool
  field_validators :: "(string \<Rightarrow> string option) list"

type_synonym form = "field_spec list"

text \<open>
  Modelled from the spec: \<open>DeleteMachineAPIForm\<close>, \<open>DeleteSerialConsoleAPIForm\<close> and
  \<open>DeleteRemotePowerAPIForm\<close> of \<open>api.forms\<close>, each with a single required field, the
  fully-qualified domain name of the target machine.
\<close>

definition fqdn_field :: field_spec where
  "fqdn_field =
     \<lparr>field_key = ''fqdn'', field_label = ''FQDN'', field_type = ''text'',
      field_required = True, field_validators = []\<rparr>"

definition DeleteMachineAPIForm :: form where
  \<comment> \<open>Modelled from the spec: a single required field, \<open>fqdn\<close>\<close>
  "DeleteMachineAPIForm = [fqdn_field]"

definition DeleteSerialConsoleAPIForm :: form where
  \<comment> \<open>Modelled from the spec: a single required field, \<open>fqdn\<close>\<close>
  "DeleteSerialConsoleAPIForm = [fqdn_field]"

definition DeleteRemotePowerAPIForm :: form where
  \<comment> \<open>Modelled from the spec: a single required field, \<open>fqdn\<close>\<close>
  "DeleteRemotePowerAPIForm = [fqdn_field]"

text \<open>
  Modelled from the spec: \<open>form.as_dict()\<close> and \<open>form.get_order()\<close>, the projection of a
  form to its fields and their declared order.
\<close>

definition as_dict :: "form \<Rightarrow> (string \<times> (string \<times> string) list) list" where
  \<comment> \<open>Modelled from the spec: \<open>form.as_dict()\<close>, every field with its label, type and
      required flag\<close>
  "as_dict f =
     map (\<lambda>s. (field_key s,
            [(''label'', field_label s), (''type'', field_type s),
             (''required'', if field_required s then ''true'' else ''false'')])) f"

definition get_order :: "form \<Rightarrow> string list" where
  \<comment> \<open>Modelled from the spec: \<open>form.get_order()\<close>, the declared order of the fields\<close>
  "get_order f = map field_key f"

text \<open>
  Modelled from the spec: validation of posted data against a form. A required field
  that is absent or empty is invalid; otherwise the first validator that rejects the
  value gives the field's message. \<open>form_errors\<close> lists the invalid fields in the form's
  order, each with one message.
\<close>

fun first_failure :: "(string \<Rightarrow> string option) list \<Rightarrow> string \<Rightarrow> string option" where
  \<comment> \<open>Modelled from the spec: the message of the first validator that rejects the value\<close>
  "first_failure [] v = None"
| "first_failure (check # checks) v =
     (case check v of Some msg \<Rightarrow> Some msg | None \<Rightarrow> first_failure checks v)"

definition posted :: "(string \<times> string) list \<Rightarrow> field_spec \<Rightarrow> string" where
  \<comment> \<open>Modelled from the spec: the posted value of a field, empty when absent\<close>
  "posted data s = (case map_of data (field_key s) of None \<Rightarrow> [] | Some v \<Rightarrow> v)"

definition field_error :: "(string \<times> string) list \<Rightarrow> field_spec \<Rightarrow> string option" where
  \<comment> \<open>Modelled from the spec: the message of an invalid field, \<open>None\<close> for a valid one\<close>
  "field_error data s =
     (if posted data s = []
      then (if field_required s then Some ''This field is required.'' else None)
      else first_failure (field_validators s) (posted data s))"

definition form_errors :: "form \<Rightarrow> (string \<times> string) list \<Rightarrow> (string \<times> string) list" where
  \<comment> \<open>Modelled from the spec: \<open>form.errors\<close>, the invalid fields with their messages\<close>
  "form_errors f data =
     concat (map (\<lambda>s. case field_error data s of
                          None \<Rightarrow> [] | Some msg \<Rightarrow> [(field_key s, msg)]) f)"

definition is_valid :: "form \<Rightarrow> (string \<times> string) list \<Rightarrow> bool" where
  \<comment> \<open>Modelled from the spec: \<open>form.is_valid()\<close>, no field is invalid\<close>
  "is_valid f data = (form_errors f data = [])"

definition cleaned_data :: "form \<Rightarrow> (string \<times> string) list \<Rightarrow> (string \<times> string) list" where
  \<comment> \<open>Modelled from the spec: \<open>form.cleaned_data\<close>, the posted value of every field\<close>
  "cleaned_data f data = map (\<lambda>s. (field_key s, posted data s)) f"

text \<open>
  Modelled from the spec: \<open>utils.misc.format_cli_form_errors\<close>, one message per invalid
  field, joined by newlines.
\<close>

definition newline :: string where
  "newline = [CHR 0x0A]"

definition field_message :: "string \<times> string \<Rightarrow> string" where
  \<comment> \<open>Modelled from the spec: the message of one invalid field, naming the field\<close>
  "field_message e = fst e @ '': '' @ snd e"

definition format_cli_form_errors :: "(string \<times> string) list \<Rightarrow> string" where
  \<comment> \<open>Modelled from the spec: one message per invalid field, joined by newlines\<close>
  "format_cli_form_errors errors = py_join newline (map field_message errors)"

section \<open>The repository and the virtualization backend\<close>

text \<open>
  Modelled from the spec: the models of \<open>data.models\<close> and the virtualization backends
  are collaborators whose code is not among the sources; the handlers are verified over
  every value of the data below. A machine carries what the handlers read from it: its name, whether it
  is a virtual machine, its hypervisor, its two optional sub-resources, and the per-kind
  counts the repository reports when the record is deleted with its dependents. A
  backend is known by what its \<open>remove\<close> call does for the machine that names it as its
  hypervisor's backend: return a truth value or raise. The world is the machine table
  and the sequence of calls made to the repository and the backends.
\<close>

type_synonym counts = "(string \<times> nat) list"

datatype remove_outcome = Returns bool | Raises

datatype backend = Backend remove_outcome

record host =
  virtualization_api :: "backend option"

record sub_resource =
  reported :: counts

record machine =
  fqdn :: string
  virtual_machine :: bool
  hypervisor :: "host option"
  serialconsole :: "sub_resource option"
  remotepower :: "sub_resource option"
  collected :: counts

datatype event =
    Lookup string
  | Decommission string
  | DeleteMachine string
  | DeleteSerialConsole string
  | DeleteRemotePower string

record world =
  machines :: "machine list"
  calls :: "event list"

definition record_call :: "event \<Rightarrow> world \<Rightarrow> world" where
  "record_call e w = w\<lparr>calls := calls w @ [e]\<rparr>"

definition iexact :: "string \<Rightarrow> string \<Rightarrow> bool" where
  "iexact a b = (py_lower a = py_lower b)"

definition Machine_objects_get :: "world \<Rightarrow> string \<Rightarrow> (exn + machine) \<times> world" where
  \<comment> \<open>Modelled from the spec: \<open>Machine.objects.get(fqdn__iexact=name)\<close>, the one machine
      whose name equals \<open>name\<close> up to case; \<open>DoesNotExist\<close> without a match,
      \<open>MultipleObjectsReturned\<close> with several\<close>
  "Machine_objects_get w name =
     (case filter (\<lambda>m. iexact (fqdn m) name) (machines w) of
        [] \<Rightarrow> (Inl DoesNotExist, record_call (Lookup name) w)
      | [m] \<Rightarrow> (Inr m, record_call (Lookup name) w)
      | m # m' # ms \<Rightarrow> (Inl MultipleObjectsReturned, record_call (Lookup name) w))"

definition is_virtual_machine :: "machine \<Rightarrow> bool" where
  \<comment> \<open>Modelled from the spec: \<open>machine.is_virtual_machine()\<close>\<close>
  "is_virtual_machine m = virtual_machine m"

definition get_hypervisor :: "machine \<Rightarrow> host option" where
  \<comment> \<open>Modelled from the spec: \<open>machine.get_hypervisor()\<close>, \<open>None\<close> without a hypervisor\<close>
  "get_hypervisor m = hypervisor m"

definition has_serialconsole :: "machine \<Rightarrow> bool" where
  \<comment> \<open>Modelled from the spec: \<open>machine.has_serialconsole()\<close>\<close>
  "has_serialconsole m = (serialconsole m \<noteq> None)"

definition has_remotepower :: "machine \<Rightarrow> bool" where
  \<comment> \<open>Modelled from the spec: \<open>machine.has_remotepower()\<close>\<close>
  "has_remotepower m = (remotepower m \<noteq> None)"

definition total :: "counts \<Rightarrow> nat" where
  "total cs = sum_list (map snd cs)"

definition machine_delete :: "world \<Rightarrow> machine \<Rightarrow> (nat \<times> counts) \<times> world" where
  \<comment> \<open>Modelled from the spec: \<open>machine.delete()\<close>, the record goes and the pair of the
      total and the counts by kind comes back\<close>
  "machine_delete w m =
     ((total (collected m), collected m),
      record_call (DeleteMachine (fqdn m)) (w\<lparr>machines := remove1 m (machines w)\<rparr>))"

definition serialconsole_delete ::
  "world \<Rightarrow> machine \<Rightarrow> (exn + nat \<times> counts) \<times> world" where
  \<comment> \<open>Modelled from the spec: \<open>machine.serialconsole.delete()\<close>, the sub-resource goes
      and its counts come back; reading a missing sub-resource raises\<close>
  "serialconsole_delete w m =
     (case serialconsole m of
        None \<Rightarrow> (Inl AttributeError, w)
      | Some sc \<Rightarrow>
          (Inr (total (reported sc), reported sc),
           record_call (DeleteSerialConsole (fqdn m))
             (w\<lparr>machines :=
                  map (\<lambda>x. if x = m then m\<lparr>serialconsole := None\<rparr> else x) (machines w)\<rparr>)))"

definition remotepower_delete ::
  "world \<Rightarrow> machine \<Rightarrow> (exn + nat \<times> counts) \<times> world" where
  \<comment> \<open>Modelled from the spec: \<open>machine.remotepower.delete()\<close>, the sub-resource goes
      and its counts come back; reading a missing sub-resource raises\<close>
  "remotepower_delete w m =
     (case remotepower m of
        None \<Rightarrow> (Inl AttributeError, w)
      | Some rp \<Rightarrow>
          (Inr (total (reported rp), reported rp),
           record_call (DeleteRemotePower (fqdn m))
             (w\<lparr>machines :=
                  map (\<lambda>x. if x = m then m\<lparr>remotepower := None\<rparr> else x) (machines w)\<rparr>)))"

fun remove :: "backend \<Rightarrow> world \<Rightarrow> machine \<Rightarrow> (exn + bool) \<times> world" where
  \<comment> \<open>Modelled from the spec: \<open>host.virtualization_api.remove(machine)\<close>, the backend is
      called and returns a truth value or raises\<close>
  "remove (Backend (Returns ok)) w m = (Inr ok, record_call (Decommission (fqdn m)) w)"
| "remove (Backend Raises) w m = (Inl BackendError, record_call (Decommission (fqdn m)) w)"

section \<open>The handlers\<close>

definition superusers_only :: response where
  "superusers_only = ErrorMessage ''Only superusers are allowed to perform this action!''"

definition something_went_wrong :: response where
  "something_went_wrong = ErrorMessage ''Something went wrong!''"

definition loads_form :: "request \<Rightarrow> exn + (string \<times> string) list" where
  \<comment> \<open>\<open>json.loads(request.body.decode('utf-8'))['form']\<close>\<close>
  "loads_form request =
     (case body request of
        Undecodable \<Rightarrow> Inl JSONDecodeError
      | Json obj \<Rightarrow>
          (case map_of obj ''form'' of None \<Rightarrow> Inl KeyError | Some data \<Rightarrow> Inr data))"

definition theader :: "(string \<times> string) list" where
  "theader = [(''objects'', ''Deleted objects''), (''count'', ''#'')]"

definition deleted_table :: "nat \<times> counts \<Rightarrow> response" where
  \<comment> \<open>the table built from \<open>result[1].items()\<close>\<close>
  "deleted_table result =
     Table theader
       (map (\<lambda>(k, v). \<lparr>objects = py_replace ''data.'' [] k, count = v\<rparr>) (snd result))"

definition DeleteMachineCommand_get :: "world \<Rightarrow> request \<Rightarrow> (exn + response) \<times> world" where
  "DeleteMachineCommand_get w request =
     (if user request = AnonymousUser \<or> auth request = None then (Inr AuthRequired, w)
      else if \<not> is_superuser (user request) then (Inr superusers_only, w)
      else
        (Inr (Input (as_dict DeleteMachineAPIForm) (URL_POST DeleteMachineCommand)
                (get_order DeleteMachineAPIForm)), w))"

definition DeleteSerialConsoleCommand_get ::
  "world \<Rightarrow> request \<Rightarrow> (exn + response) \<times> world" where
  "DeleteSerialConsoleCommand_get w request =
     (if user request = AnonymousUser \<or> auth request = None then (Inr AuthRequired, w)
      else if \<not> is_superuser (user request) then (Inr superusers_only, w)
      else
        (Inr (Input (as_dict DeleteSerialConsoleAPIForm) (URL_POST DeleteSerialConsoleCommand)
                (get_order DeleteSerialConsoleAPIForm)), w))"

definition DeleteRemotePowerCommand_get ::
  "world \<Rightarrow> request \<Rightarrow> (exn + response) \<times> world" where
  "DeleteRemotePowerCommand_get w request =
     (if user request = AnonymousUser \<or> auth request = None then (Inr AuthRequired, w)
      else if \<not> is_superuser (user request) then (Inr superusers_only, w)
      else
        (Inr (Input (as_dict DeleteRemotePowerAPIForm) (URL_POST DeleteRemotePowerCommand)
                (get_order DeleteRemotePowerAPIForm)), w))"

definition machine_try :: "world \<Rightarrow> (string \<times> string) list \<Rightarrow> (exn + response) \<times> world" where
  \<comment> \<open>the \<open>try\<close> block of \<open>DeleteMachineCommand.post\<close>; \<open>Inl\<close> is an exception raised in it\<close>
  "machine_try w cleaned =
     (case map_of cleaned ''fqdn'' of
        None \<Rightarrow> (Inl KeyError, w)
      | Some name \<Rightarrow>
          (case Machine_objects_get w name of
             (Inl e, w1) \<Rightarrow> (Inl e, w1)
           | (Inr m, w1) \<Rightarrow>
               if is_virtual_machine m then
                 (case get_hypervisor m of
                    None \<Rightarrow> (Inl AttributeError, w1)
                  | Some h \<Rightarrow>
                      (case virtualization_api h of
                         None \<Rightarrow> (Inr (ErrorMessage ''No virtualization API found!''), w1)
                       | Some api \<Rightarrow>
                           (case remove api w1 m of
                              (Inl e, w2) \<Rightarrow> (Inl e, w2)
                            | (Inr True, w2) \<Rightarrow>
                                (case machine_delete w2 m of
                                   (result, w3) \<Rightarrow> (Inr (deleted_table result), w3))
                            | (Inr False, w2) \<Rightarrow> (Inl UnboundLocalError, w2))))
               else
                 (case machine_delete w1 m of
                    (result, w2) \<Rightarrow> (Inr (deleted_table result), w2))))"

definition serialconsole_try ::
  "world \<Rightarrow> (string \<times> string) list \<Rightarrow> (exn + response) \<times> world" where
  \<comment> \<open>the \<open>try\<close> block of \<open>DeleteSerialConsoleCommand.post\<close>\<close>
  "serialconsole_try w cleaned =
     (case map_of cleaned ''fqdn'' of
        None \<Rightarrow> (Inl KeyError, w)
      | Some name \<Rightarrow>
          (case Machine_objects_get w name of
             (Inl e, w1) \<Rightarrow> (Inl e, w1)
           | (Inr m, w1) \<Rightarrow>
               if \<not> has_serialconsole m
               then (Inr (ErrorMessage ''Machine has no serial console!''), w1)
               else
                 (case serialconsole_delete w1 m of
                    (Inl e, w2) \<Rightarrow> (Inl e, w2)
                  | (Inr result, w2) \<Rightarrow> (Inr (deleted_table result), w2))))"

definition remotepower_try ::
  "world \<Rightarrow> (string \<times> string) list \<Rightarrow> (exn + response) \<times> world" where
  \<comment> \<open>the \<open>try\<close> block of \<open>DeleteRemotePowerCommand.post\<close>\<close>
  "remotepower_try w cleaned =
     (case map_of cleaned ''fqdn'' of
        None \<Rightarrow> (Inl KeyError, w)
      | Some name \<Rightarrow>
          (case Machine_objects_get w name of
             (Inl e, w1) \<Rightarrow> (Inl e, w1)
           | (Inr m, w1) \<Rightarrow>
               if \<not> has_remotepower m
               then (Inr (ErrorMessage ''Machine has no remote power!''), w1)
               else
                 (case remotepower_delete w1 m of
                    (Inl e, w2) \<Rightarrow> (Inl e, w2)
                  | (Inr result, w2) \<Rightarrow> (Inr (deleted_table result), w2))))"

text \<open>
  In each \<open>post\<close> the guard and the reading of the body stand outside the \<open>try\<close>: an
  exception of \<open>loads_form\<close> leaves the handler (\<open>Inl\<close>), one of the \<open>try\<close> block is caught
  by \<open>except Exception\<close> and answered with \<open>something_went_wrong\<close>.
\<close>

definition DeleteMachineCommand_post :: "world \<Rightarrow> request \<Rightarrow> (exn + response) \<times> world" where
  "DeleteMachineCommand_post w request =
     (if \<not> is_superuser (user request) then (Inr superusers_only, w)
      else
        (case loads_form request of
           Inl e \<Rightarrow> (Inl e, w)
         | Inr data \<Rightarrow>
             if is_valid DeleteMachineAPIForm data then
               (case machine_try w (cleaned_data DeleteMachineAPIForm data) of
                  (Inl e, w') \<Rightarrow> (Inr something_went_wrong, w')
                | (Inr r, w') \<Rightarrow> (Inr r, w'))
             else
               (Inr (ErrorMessage
                  (newline @ format_cli_form_errors (form_errors DeleteMachineAPIForm data))), w)))"

definition DeleteSerialConsoleCommand_post ::
  "world \<Rightarrow> request \<Rightarrow> (exn + response) \<times> world" where
  "DeleteSerialConsoleCommand_post w request =
     (if \<not> is_superuser (user request) then (Inr superusers_only, w)
      else
        (case loads_form request of
           Inl e \<Rightarrow> (Inl e, w)
         | Inr data \<Rightarrow>
             if is_valid DeleteSerialConsoleAPIForm data then
               (case serialconsole_try w (cleaned_data DeleteSerialConsoleAPIForm data) of
                  (Inl e, w') \<Rightarrow> (Inr something_went_wrong, w')
                | (Inr r, w') \<Rightarrow> (Inr r, w'))
             else
               (Inr (ErrorMessage
                  (newline @ format_cli_form_errors (form_errors DeleteSerialConsoleAPIForm data))), w)))"

definition DeleteRemotePowerCommand_post ::
  "world \<Rightarrow> request \<Rightarrow> (exn + response) \<times> world" where
  "DeleteRemotePowerCommand_post w request =
     (if \<not> is_superuser (user request) then (Inr superusers_only, w)
      else
        (case loads_form request of
           Inl e \<Rightarrow> (Inl e, w)
         | Inr data \<Rightarrow>
             if is_valid DeleteRemotePowerAPIForm data then
               (case remotepower_try w (cleaned_data DeleteRemotePowerAPIForm data) of
                  (Inl e, w') \<Rightarrow> (Inr something_went_wrong, w')
                | (Inr r, w') \<Rightarrow> (Inr r, w'))
             else
               (Inr (ErrorMessage
                  (newline @ format_cli_form_errors (form_errors DeleteRemotePowerAPIForm data))), w)))"

section \<open>Vocabulary of the properties\<close>

definition unauthenticated :: "request \<Rightarrow> bool" where
  \<comment> \<open>the condition under which the three \<open>get\<close> methods answer \<open>AuthRequired\<close>\<close>
  "unauthenticated request = (user request = AnonymousUser \<or> auth request = None)"

definition valid_post :: "form \<Rightarrow> request \<Rightarrow> string \<Rightarrow> bool" where
  \<comment> \<open>a superuser posts a body whose form passes validation with the given machine name\<close>
  "valid_post f request name =
     (is_superuser (user request) \<and>
      (case loads_form request of
         Inl e \<Rightarrow> False
       | Inr data \<Rightarrow> is_valid f data \<and> map_of (cleaned_data f data) ''fqdn'' = Some name))"

definition invalid_post :: "form \<Rightarrow> request \<Rightarrow> (string \<times> string) list \<Rightarrow> bool" where
  \<comment> \<open>a superuser posts a body whose form fails validation\<close>
  "invalid_post f request data =
     (is_superuser (user request) \<and> loads_form request = Inr data \<and> \<not> is_valid f data)"

definition matches :: "world \<Rightarrow> string \<Rightarrow> machine list" where
  \<comment> \<open>the stored machines whose name equals the given one up to case\<close>
  "matches w name = filter (\<lambda>m. iexact (fqdn m) name) (machines w)"





definition caught :: "(exn + response) \<times> world \<Rightarrow> (exn + response) \<times> world" where
  \<comment> \<open>what the blanket \<open>except Exception\<close> of a \<open>post\<close> makes of the outcome of its \<open>try\<close> block\<close>
  "caught x =
     (case x of
        (Inl e, w') \<Rightarrow> (Inr something_went_wrong, w')
      | (Inr r, w') \<Rightarrow> (Inr r, w'))"

section \<open>Example data\<close>

text \<open>
  A small machine table, used to run the handlers on concrete requests: a physical
  machine, four virtual machines whose hypervisors have no backend, a backend that
  returns \<open>False\<close>, one that raises and one that returns \<open>True\<close>, a machine with both
  sub-resources, and a machine whose deletion reports a kind outside the \<open>data\<close>
  namespace.
\<close>

definition host01 :: machine where
  "host01 =
     \<lparr>fqdn = ''host01.example.com'', virtual_machine = False, hypervisor = None,
      serialconsole = None, remotepower = None,
      collected = [(''data.Machine'', 1), (''data.NetworkInterface'', 2)]\<rparr>"

definition vm01 :: machine where
  "vm01 =
     \<lparr>fqdn = ''vm01.example.com'', virtual_machine = True,
      hypervisor = Some \<lparr>virtualization_api = None\<rparr>,
      serialconsole = None, remotepower = None, collected = [(''data.Machine'', 1)]\<rparr>"

definition vm02 :: machine where
  "vm02 =
     \<lparr>fqdn = ''vm02.example.com'', virtual_machine = True,
      hypervisor = Some \<lparr>virtualization_api = Some (Backend (Returns False))\<rparr>,
      serialconsole = None, remotepower = None, collected = [(''data.Machine'', 1)]\<rparr>"

definition vm03 :: machine where
  "vm03 =
     \<lparr>fqdn = ''vm03.example.com'', virtual_machine = True,
      hypervisor = Some \<lparr>virtualization_api = Some (Backend Raises)\<rparr>,
      serialconsole = None, remotepower = None, collected = [(''data.Machine'', 1)]\<rparr>"

definition vm04 :: machine where
  "vm04 =
     \<lparr>fqdn = ''vm04.example.com'', virtual_machine = True,
      hypervisor = Some \<lparr>virtualization_api = Some (Backend (Returns True))\<rparr>,
      serialconsole = None, remotepower = None, collected = [(''data.Machine'', 1)]\<rparr>"

definition host02 :: machine where
  "host02 =
     \<lparr>fqdn = ''host02.example.com'', virtual_machine = False, hypervisor = None,
      serialconsole = Some \<lparr>reported = [(''data.SerialConsole'', 1)]\<rparr>,
      remotepower = Some \<lparr>reported = [(''data.RemotePower'', 1)]\<rparr>,
      collected =
        [(''data.Machine'', 1), (''data.SerialConsole'', 1), (''data.RemotePower'', 1)]\<rparr>"

definition host03 :: machine where
  "host03 =
     \<lparr>fqdn = ''host03.example.com'', virtual_machine = False, hypervisor = None,
      serialconsole = None, remotepower = None,
      collected = [(''data.Machine'', 1), (''taskmanager.SingleTask'', 2)]\<rparr>"

definition example_world :: world where
  "example_world =
     \<lparr>machines = [host01, vm01, vm02, vm03, vm04, host02, host03], calls = []\<rparr>"

definition post_request :: "user \<Rightarrow> token option \<Rightarrow> string \<Rightarrow> request" where
  \<comment> \<open>a request whose body is \<open>{"form": {"fqdn": name}}\<close>\<close>
  "post_request u t name =
     \<lparr>user = u, auth = t, GET_args = None, body = Json [(''form'', [(''fqdn'', name)])]\<rparr>"

definition admin_post :: "string \<Rightarrow> request" where
  "admin_post name = post_request (User True) (Some (Token ''secret'')) name"

section \<open>Properties of the dispatcher\<close>

lemma split_all_space: "\<forall>c\<in>set s. py_isspace c \<Longrightarrow> split_from [] s = []"
  by (induction s) auto

lemma split_no_space:
  "\<forall>c\<in>set s. \<not> py_isspace c \<Longrightarrow> split_from cur s = (if cur @ s = [] then [] else [cur @ s])"
  by (induction s arbitrary: cur) auto

lemma space_lower: "py_isspace c \<Longrightarrow> lower_char c = c"
  by (auto simp: py_isspace_def lower_char_def Let_def)

lemma lower_no_space:
  assumes "\<forall>c\<in>set (py_lower s). \<not> py_isspace c"
  shows "\<forall>c\<in>set s. \<not> py_isspace c"
proof
  fix c assume c: "c \<in> set s"
  show "\<not> py_isspace c"
  proof
    assume sp: "py_isspace c"
    then have "lower_char c = c" by (rule space_lower)
    with c have "c \<in> set (py_lower s)" by (force simp: py_lower_def)
    with assms sp show False by blast
  qed
qed

lemma item_no_space:
  "\<forall>c\<in>set MACHINE. \<not> py_isspace c"
  "\<forall>c\<in>set SERIALCONSOLE. \<not> py_isspace c"
  "\<forall>c\<in>set REMOTEPOWER. \<not> py_isspace c"
  by (simp_all add: MACHINE_def SERIALCONSOLE_def REMOTEPOWER_def py_isspace_def)

lemma split_item:
  assumes "py_lower s \<in> set as_list"
  shows "py_split s = [s]"
proof -
  from assms have "\<forall>c\<in>set (py_lower s). \<not> py_isspace c"
    using item_no_space by (auto simp: as_list_def)
  then have ns: "\<forall>c\<in>set s. \<not> py_isspace c" by (rule lower_no_space)
  from assms have "s \<noteq> []"
    by (auto simp: as_list_def py_lower_def MACHINE_def SERIALCONSOLE_def REMOTEPOWER_def)
  with ns show ?thesis by (simp add: py_split_def split_no_space)
qed

lemma reverse_routes:
  "reverse ''api:machine_delete'' = Inr (URL_POST DeleteMachineCommand)"
  "reverse ''api:serialconsole_delete'' = Inr (URL_POST DeleteSerialConsoleCommand)"
  "reverse ''api:remotepower_delete'' = Inr (URL_POST DeleteRemotePowerCommand)"
  by (simp_all add: reverse_def urlpatterns_def pattern_path_def)

lemma resolve_routes:
  "resolve (URL_POST DeleteMachineCommand) = Some DeleteMachineCommand"
  "resolve (URL_POST DeleteSerialConsoleCommand) = Some DeleteSerialConsoleCommand"
  "resolve (URL_POST DeleteRemotePowerCommand) = Some DeleteRemotePowerCommand"
  by (simp_all add: resolve_def urlpatterns_def pattern_path_def)

lemma items_distinct:
  "MACHINE \<noteq> SERIALCONSOLE" "MACHINE \<noteq> REMOTEPOWER" "SERIALCONSOLE \<noteq> REMOTEPOWER"
  by (simp_all add: MACHINE_def SERIALCONSOLE_def REMOTEPOWER_def)

lemma get_tokens:
  assumes "GET_args request = Some a" and "py_split a = tok # rest"
  shows "DeleteCommand_get request =
     (if py_lower tok = MACHINE then
        (if rest \<noteq> [] then Inr (ErrorMessage ''Invalid number of arguments for 'machine'!'')
         else Inr (Redirect (URL_POST DeleteMachineCommand)))
      else if py_lower tok = SERIALCONSOLE then
        (if rest \<noteq> [] then Inr (ErrorMessage ''Invalid number of arguments for 'serialconsole'!'')
         else Inr (Redirect (URL_POST DeleteSerialConsoleCommand)))
      else if py_lower tok = REMOTEPOWER then
        (if rest \<noteq> [] then Inr (ErrorMessage ''Invalid number of arguments for 'remotepower'!'')
         else Inr (Redirect (URL_POST DeleteRemotePowerCommand)))
      else Inr (ErrorMessage (''Unknown item '' @ quoted (py_lower tok) @ ''!'')))"
proof -
  from assms(2) have "a \<noteq> []" by (auto simp: py_split_def)
  with assms show ?thesis
    by (simp add: DeleteCommand_get_def Let_def reverse_routes redirect_def del: URL_POST.simps)
qed

text \<open>
  C4. The dispatcher follows the error taxonomy. Without \<open>args\<close> it answers
  "Item is missing!"; \<open>args = "bogus"\<close> gives "Unknown item 'bogus'!"; \<open>args = "machine extra"\<close>
  gives "Invalid number of arguments for 'machine'!". In general, a first token that
  lowercases to one of the three items and is followed by further tokens gives the
  invalid-number message of that item, a first token that lowercases to none of them
  gives the unknown-item message naming the lowercased token, and an \<open>args\<close> that
  lowercases to exactly one of the three items is redirected to the path of that kind,
  which is routed to the kind's class (whose \<open>get\<close> is the describe operation).
\<close>

theorem dispatch_taxonomy:
  "(GET_args request = None \<longrightarrow>
      DeleteCommand_get request = Inr (ErrorMessage ''Item is missing!''))
   \<and> (GET_args request = Some ''bogus'' \<longrightarrow>
      DeleteCommand_get request = Inr (ErrorMessage ''Unknown item 'bogus'!''))
   \<and> (GET_args request = Some ''machine extra'' \<longrightarrow>
      DeleteCommand_get request =
        Inr (ErrorMessage ''Invalid number of arguments for 'machine'!''))
   \<and> (GET_args request = Some a \<and> py_split a = tok # rest \<and> rest \<noteq> [] \<and>
         py_lower tok \<in> set as_list \<longrightarrow>
      DeleteCommand_get request =
        Inr (ErrorMessage (''Invalid number of arguments for '' @ quoted (py_lower tok) @ ''!'')))
   \<and> (GET_args request = Some a \<and> py_split a = tok # rest \<and>
         py_lower tok \<notin> set as_list \<longrightarrow>
      DeleteCommand_get request =
        Inr (ErrorMessage (''Unknown item '' @ quoted (py_lower tok) @ ''!'')))
   \<and> (GET_args request = Some a \<and> py_lower a = MACHINE \<longrightarrow>
      DeleteCommand_get request = Inr (Redirect (URL_POST DeleteMachineCommand)) \<and>
      resolve (URL_POST DeleteMachineCommand) = Some DeleteMachineCommand)
   \<and> (GET_args request = Some a \<and> py_lower a = SERIALCONSOLE \<longrightarrow>
      DeleteCommand_get request = Inr (Redirect (URL_POST DeleteSerialConsoleCommand)) \<and>
      resolve (URL_POST DeleteSerialConsoleCommand) = Some DeleteSerialConsoleCommand)
   \<and> (GET_args request = Some a \<and> py_lower a = REMOTEPOWER \<longrightarrow>
      DeleteCommand_get request = Inr (Redirect (URL_POST DeleteRemotePowerCommand)) \<and>
      resolve (URL_POST DeleteRemotePowerCommand) = Some DeleteRemotePowerCommand)"
proof (intro conjI impI)
  assume "GET_args request = None"
  then show "DeleteCommand_get request = Inr (ErrorMessage ''Item is missing!'')"
    by (simp add: DeleteCommand_get_def)
next
  assume a: "GET_args request = Some ''bogus''"
  have "py_split ''bogus'' = [''bogus'']"
    by (simp add: py_split_def py_isspace_def)
  from get_tokens [OF a this]
  show "DeleteCommand_get request = Inr (ErrorMessage ''Unknown item 'bogus'!'')"
    by (simp add: py_lower_def lower_char_def MACHINE_def SERIALCONSOLE_def REMOTEPOWER_def
        quoted_def)
next
  assume a: "GET_args request = Some ''machine extra''"
  have "py_split ''machine extra'' = [''machine'', ''extra'']"
    by (simp add: py_split_def py_isspace_def)
  from get_tokens [OF a this]
  show "DeleteCommand_get request =
      Inr (ErrorMessage ''Invalid number of arguments for 'machine'!'')"
    by (simp add: py_lower_def lower_char_def MACHINE_def)
next
  assume h: "GET_args request = Some a \<and> py_split a = tok # rest \<and> rest \<noteq> [] \<and>
    py_lower tok \<in> set as_list"
  then have "DeleteCommand_get request =
     (if py_lower tok = MACHINE then Inr (ErrorMessage ''Invalid number of arguments for 'machine'!'')
      else if py_lower tok = SERIALCONSOLE then
        Inr (ErrorMessage ''Invalid number of arguments for 'serialconsole'!'')
      else Inr (ErrorMessage ''Invalid number of arguments for 'remotepower'!''))"
    using get_tokens [of request a tok rest] by (auto simp: as_list_def)
  with h show "DeleteCommand_get request =
      Inr (ErrorMessage (''Invalid number of arguments for '' @ quoted (py_lower tok) @ ''!''))"
    by (auto simp: as_list_def quoted_def MACHINE_def SERIALCONSOLE_def REMOTEPOWER_def)
next
  assume "GET_args request = Some a \<and> py_split a = tok # rest \<and> py_lower tok \<notin> set as_list"
  then show "DeleteCommand_get request =
      Inr (ErrorMessage (''Unknown item '' @ quoted (py_lower tok) @ ''!''))"
    using get_tokens [of request a tok rest] by (simp add: as_list_def)
next
  assume h: "GET_args request = Some a \<and> py_lower a = MACHINE"
  then have "py_split a = [a]" by (simp add: split_item as_list_def)
  with h show "DeleteCommand_get request = Inr (Redirect (URL_POST DeleteMachineCommand))"
    using get_tokens [of request a a "[]"] by simp
next
  assume h: "GET_args request = Some a \<and> py_lower a = SERIALCONSOLE"
  then have "py_split a = [a]" by (simp add: split_item as_list_def)
  with h show "DeleteCommand_get request = Inr (Redirect (URL_POST DeleteSerialConsoleCommand))"
    using get_tokens [of request a a "[]"] by (simp add: items_distinct [symmetric])
next
  assume h: "GET_args request = Some a \<and> py_lower a = REMOTEPOWER"
  then have "py_split a = [a]" by (simp add: split_item as_list_def)
  with h show "DeleteCommand_get request = Inr (Redirect (URL_POST DeleteRemotePowerCommand))"
    using get_tokens [of request a a "[]"] by (simp add: items_distinct [symmetric])
qed (rule resolve_routes)+


theorem dispatch_taxonomy_witness:
  "DeleteCommand_get \<lparr>user = AnonymousUser, auth = None, GET_args = None, body = Undecodable\<rparr>
     = Inr (ErrorMessage ''Item is missing!'')
   \<and> DeleteCommand_get
       \<lparr>user = AnonymousUser, auth = None, GET_args = Some ''bogus'', body = Undecodable\<rparr>
     = Inr (ErrorMessage ''Unknown item 'bogus'!'')
   \<and> DeleteCommand_get
       \<lparr>user = AnonymousUser, auth = None, GET_args = Some ''machine extra'',
        body = Undecodable\<rparr>
     = Inr (ErrorMessage ''Invalid number of arguments for 'machine'!'')
   \<and> DeleteCommand_get
       \<lparr>user = AnonymousUser, auth = None, GET_args = Some '' RemotePower  a b'',
        body = Undecodable\<rparr>
     = Inr (ErrorMessage ''Invalid number of arguments for 'remotepower'!'')
   \<and> DeleteCommand_get
       \<lparr>user = AnonymousUser, auth = None, GET_args = Some ''Machines'', body = Undecodable\<rparr>
     = Inr (ErrorMessage ''Unknown item 'machines'!'')
   \<and> DeleteCommand_get
       \<lparr>user = AnonymousUser, auth = None, GET_args = Some ''Machine'', body = Undecodable\<rparr>
     = Inr (Redirect ''/machine/delete'')
   \<and> DeleteCommand_get
       \<lparr>user = AnonymousUser, auth = None, GET_args = Some ''SERIALCONSOLE'',
        body = Undecodable\<rparr>
     = Inr (Redirect ''/serialconsole/delete'')
   \<and> DeleteCommand_get
       \<lparr>user = AnonymousUser, auth = None, GET_args = Some ''remotepower'',
        body = Undecodable\<rparr>
     = Inr (Redirect ''/remotepower/delete'')"
proof -
  have lower:
    "py_lower ''RemotePower'' = ''remotepower''" "py_lower ''Machines'' = ''machines''"
    "py_lower ''Machine'' = ''machine''" "py_lower ''SERIALCONSOLE'' = ''serialconsole''"
    "py_lower ''remotepower'' = ''remotepower''"
    by code_simp+
  note defs = lower MACHINE_def SERIALCONSOLE_def REMOTEPOWER_def
    as_list_def quoted_def py_split_def py_isspace_def
  let ?r = "\<lambda>args. \<lparr>user = AnonymousUser, auth = None, GET_args = args, body = Undecodable\<rparr>"
  have w1: "DeleteCommand_get (?r None) = Inr (ErrorMessage ''Item is missing!'')"
    using dispatch_taxonomy [of "?r None" "[]" "[]" "[]"] by simp
  have w2: "DeleteCommand_get (?r (Some ''bogus'')) = Inr (ErrorMessage ''Unknown item 'bogus'!'')"
    using dispatch_taxonomy [of "?r (Some ''bogus'')" "[]" "[]" "[]"] by simp
  have w3: "DeleteCommand_get (?r (Some ''machine extra''))
      = Inr (ErrorMessage ''Invalid number of arguments for 'machine'!'')"
    using dispatch_taxonomy [of "?r (Some ''machine extra'')" "[]" "[]" "[]"] by simp
  have w4: "DeleteCommand_get (?r (Some '' RemotePower  a b''))
      = Inr (ErrorMessage ''Invalid number of arguments for 'remotepower'!'')"
    using dispatch_taxonomy
      [of "?r (Some '' RemotePower  a b'')" "'' RemotePower  a b''" "''RemotePower''"
          "[''a'', ''b'']"]
    by (simp add: defs)
  have w5: "DeleteCommand_get (?r (Some ''Machines''))
      = Inr (ErrorMessage ''Unknown item 'machines'!'')"
    using dispatch_taxonomy [of "?r (Some ''Machines'')" "''Machines''" "''Machines''" "[]"]
    by (simp add: defs)
  have w6: "DeleteCommand_get (?r (Some ''Machine'')) = Inr (Redirect ''/machine/delete'')"
    using dispatch_taxonomy [of "?r (Some ''Machine'')" "''Machine''" "[]" "[]"]
    by (simp add: defs)
  have w7: "DeleteCommand_get (?r (Some ''SERIALCONSOLE''))
      = Inr (Redirect ''/serialconsole/delete'')"
    using dispatch_taxonomy [of "?r (Some ''SERIALCONSOLE'')" "''SERIALCONSOLE''" "[]" "[]"]
    by (simp add: defs)
  have w8: "DeleteCommand_get (?r (Some ''remotepower''))
      = Inr (Redirect ''/remotepower/delete'')"
    using dispatch_taxonomy [of "?r (Some ''remotepower'')" "''remotepower''" "[]" "[]"]
    by (simp add: defs)
  from w1 w2 w3 w4 w5 w6 w7 w8 show ?thesis by blast
qed

lemma get_missing_iff:
  "DeleteCommand_get request = Inr (ErrorMessage ''Item is missing!'')
   \<longleftrightarrow> GET_args request = None \<or> GET_args request = Some []"
proof (cases "GET_args request")
  case None
  then show ?thesis by (simp add: DeleteCommand_get_def)
next
  case (Some a)
  show ?thesis
  proof (cases "py_split a")
    case Nil
    with Some show ?thesis by (simp add: DeleteCommand_get_def)
  next
    case (Cons tok rest)
    then have "a \<noteq> []" by (auto simp: py_split_def)
    with Some Cons show ?thesis
      by (simp add: get_tokens [OF Some Cons])
  qed
qed

text \<open>
  C10. An \<open>args\<close> that is present, non-empty and made of whitespace only is split into
  no token, and reading token 0 raises \<open>IndexError\<close>, which nothing in the dispatcher
  catches: the dispatcher returns no response at all. The answer "Item is missing!" is
  given exactly when \<open>args\<close> is absent or the empty string.
\<close>

theorem whitespace_args_raise:
  "(a \<noteq> [] \<and> (\<forall>c\<in>set a. py_isspace c) \<and> GET_args request = Some a \<longrightarrow>
      py_split a = [] \<and> DeleteCommand_get request = Inl IndexError)
   \<and> (DeleteCommand_get request = Inr (ErrorMessage ''Item is missing!'')
        \<longleftrightarrow> GET_args request = None \<or> GET_args request = Some [])"
proof (intro conjI impI)
  assume h: "a \<noteq> [] \<and> (\<forall>c\<in>set a. py_isspace c) \<and> GET_args request = Some a"
  then show "py_split a = []" by (simp add: py_split_def split_all_space)
  with h show "DeleteCommand_get request = Inl IndexError"
    by (simp add: DeleteCommand_get_def)
qed (rule get_missing_iff)

theorem whitespace_args_raise_witness:
  "py_split [CHR '' '', CHR 0x09, CHR 0x0A] = []
   \<and> DeleteCommand_get
       \<lparr>user = User True, auth = Some (Token ''t''), GET_args = Some [CHR '' '', CHR 0x09, CHR 0x0A],
        body = Undecodable\<rparr> = Inl IndexError"
  using whitespace_args_raise
    [of "[CHR '' '', CHR 0x09, CHR 0x0A]"
        "\<lparr>user = User True, auth = Some (Token ''t''),
          GET_args = Some [CHR '' '', CHR 0x09, CHR 0x0A], body = Undecodable\<rparr>"]
  by (simp add: py_isspace_def)

section \<open>The guards of describe and execute\<close>

lemma get_results:
  "DeleteMachineCommand_get w request =
     (Inr (if unauthenticated request then AuthRequired
           else if \<not> is_superuser (user request) then superusers_only
           else Input (as_dict DeleteMachineAPIForm) ''/machine/delete''
                  (get_order DeleteMachineAPIForm)), w)"
  "DeleteSerialConsoleCommand_get w request =
     (Inr (if unauthenticated request then AuthRequired
           else if \<not> is_superuser (user request) then superusers_only
           else Input (as_dict DeleteSerialConsoleAPIForm) ''/serialconsole/delete''
                  (get_order DeleteSerialConsoleAPIForm)), w)"
  "DeleteRemotePowerCommand_get w request =
     (Inr (if unauthenticated request then AuthRequired
           else if \<not> is_superuser (user request) then superusers_only
           else Input (as_dict DeleteRemotePowerAPIForm) ''/remotepower/delete''
                  (get_order DeleteRemotePowerAPIForm)), w)"
  by (simp_all add: DeleteMachineCommand_get_def DeleteSerialConsoleCommand_get_def
      DeleteRemotePowerCommand_get_def unauthenticated_def)

lemma post_guard:
  assumes "\<not> is_superuser (user request)"
  shows "DeleteMachineCommand_post w request = (Inr superusers_only, w)"
    and "DeleteSerialConsoleCommand_post w request = (Inr superusers_only, w)"
    and "DeleteRemotePowerCommand_post w request = (Inr superusers_only, w)"
  using assms
  by (simp_all add: DeleteMachineCommand_post_def DeleteSerialConsoleCommand_post_def
      DeleteRemotePowerCommand_post_def)

text \<open>
  C1. Every unauthenticated principal (an anonymous user) and every authenticated
  principal that is not a superuser is turned away by each of the six operations, with
  \<open>AuthRequired\<close> or with the message "Only superusers are allowed to perform this
  action!", and the world is returned as it was: no record is changed and no call to the
  repository or a backend is made, so no lookup and no delete is reached before the
  guard. Describe answers \<open>AuthRequired\<close> exactly to those of these principals that are
  anonymous or carry no credential, execute answers all of them with the superuser
  message.
\<close>

theorem guards_reject:
  "(unauthenticated request \<longrightarrow>
      DeleteMachineCommand_get w request = (Inr AuthRequired, w) \<and>
      DeleteSerialConsoleCommand_get w request = (Inr AuthRequired, w) \<and>
      DeleteRemotePowerCommand_get w request = (Inr AuthRequired, w))
   \<and> (user request = AnonymousUser \<or> \<not> is_superuser (user request) \<longrightarrow>
      DeleteMachineCommand_get w request =
        (Inr (if unauthenticated request then AuthRequired
              else ErrorMessage ''Only superusers are allowed to perform this action!''), w) \<and>
      DeleteSerialConsoleCommand_get w request =
        (Inr (if unauthenticated request then AuthRequired
              else ErrorMessage ''Only superusers are allowed to perform this action!''), w) \<and>
      DeleteRemotePowerCommand_get w request =
        (Inr (if unauthenticated request then AuthRequired
              else ErrorMessage ''Only superusers are allowed to perform this action!''), w) \<and>
      DeleteMachineCommand_post w request =
        (Inr (ErrorMessage ''Only superusers are allowed to perform this action!''), w) \<and>
      DeleteSerialConsoleCommand_post w request =
        (Inr (ErrorMessage ''Only superusers are allowed to perform this action!''), w) \<and>
      DeleteRemotePowerCommand_post w request =
        (Inr (ErrorMessage ''Only superusers are allowed to perform this action!''), w))"
  by (simp add: get_results post_guard superusers_only_def)

theorem guards_reject_witness:
  "\<not> is_superuser (user (post_request AnonymousUser None ''host01.example.com''))
   \<and> unauthenticated (post_request AnonymousUser None ''host01.example.com'')
   \<and> DeleteMachineCommand_get example_world
        (post_request AnonymousUser None ''host01.example.com'')
       = (Inr AuthRequired, example_world)
   \<and> DeleteMachineCommand_post example_world
        (post_request AnonymousUser None ''host01.example.com'')
       = (Inr (ErrorMessage ''Only superusers are allowed to perform this action!''),
          example_world)
   \<and> \<not> is_superuser (user (post_request (User False) (Some (Token ''t'')) ''host02.example.com''))
   \<and> DeleteSerialConsoleCommand_get example_world
        (post_request (User False) (Some (Token ''t'')) ''host02.example.com'')
       = (Inr (ErrorMessage ''Only superusers are allowed to perform this action!''),
          example_world)
   \<and> DeleteSerialConsoleCommand_post example_world
        (post_request (User False) (Some (Token ''t'')) ''host02.example.com'')
       = (Inr (ErrorMessage ''Only superusers are allowed to perform this action!''),
          example_world)
   \<and> DeleteRemotePowerCommand_post example_world
        (post_request (User False) (Some (Token ''t'')) ''host02.example.com'')
       = (Inr (ErrorMessage ''Only superusers are allowed to perform this action!''),
          example_world)"
proof -
  let ?anon = "post_request AnonymousUser None ''host01.example.com''"
  let ?user = "post_request (User False) (Some (Token ''t'')) ''host02.example.com''"
  have a: "\<not> is_superuser (user ?anon)" "unauthenticated ?anon"
    by (simp_all add: post_request_def unauthenticated_def)
  have u: "\<not> is_superuser (user ?user)" "\<not> unauthenticated ?user"
    by (simp_all add: post_request_def unauthenticated_def)
  from a u guards_reject [of ?anon example_world] guards_reject [of ?user example_world]
  show ?thesis by simp
qed

section \<open>The form and its validation\<close>

lemma forms_eq:
  "DeleteMachineAPIForm = [fqdn_field]" "DeleteSerialConsoleAPIForm = [fqdn_field]"
  "DeleteRemotePowerAPIForm = [fqdn_field]"
  by (simp_all add: DeleteMachineAPIForm_def DeleteSerialConsoleAPIForm_def
      DeleteRemotePowerAPIForm_def)

lemma field_error_fqdn:
  "field_error data fqdn_field =
     (if posted data fqdn_field = [] then Some ''This field is required.'' else None)"
  by (simp add: field_error_def fqdn_field_def)

lemma form_errors_fqdn:
  "form_errors [fqdn_field] data =
     (if posted data fqdn_field = [] then [(''fqdn'', ''This field is required.'')] else [])"
  by (simp add: form_errors_def field_error_fqdn) (simp add: fqdn_field_def)

lemma cleaned_fqdn: "cleaned_data [fqdn_field] data = [(''fqdn'', posted data fqdn_field)]"
  by (simp add: cleaned_data_def) (simp add: fqdn_field_def)

lemma form_errors_keys:
  "map fst (form_errors f data) = map field_key (filter (\<lambda>s. field_error data s \<noteq> None) f)"
  by (induction f) (auto simp: form_errors_def split: option.splits)

text \<open>
  C9. For every superuser principal that passes the authentication guard (a user that is
  not anonymous, with a credential), describe returns for each of the three kinds the
  input description whose single field is \<open>fqdn\<close>, whose field order is \<open>[fqdn]\<close> and whose
  submit path is the kind's \<open>URL_POST\<close>: \<open>/machine/delete\<close>, \<open>/serialconsole/delete\<close>,
  \<open>/remotepower/delete\<close>. The world is returned as it was.
\<close>

theorem describe_returns_schema:
  assumes "\<not> unauthenticated request" and "is_superuser (user request)"
  shows "(\<exists>fields. DeleteMachineCommand_get w request =
            (Inr (Input fields (URL_POST DeleteMachineCommand) [''fqdn'']), w) \<and>
            map fst fields = [''fqdn''])
       \<and> (\<exists>fields. DeleteSerialConsoleCommand_get w request =
            (Inr (Input fields (URL_POST DeleteSerialConsoleCommand) [''fqdn'']), w) \<and>
            map fst fields = [''fqdn''])
       \<and> (\<exists>fields. DeleteRemotePowerCommand_get w request =
            (Inr (Input fields (URL_POST DeleteRemotePowerCommand) [''fqdn'']), w) \<and>
            map fst fields = [''fqdn''])
       \<and> URL_POST DeleteMachineCommand = ''/machine/delete''
       \<and> URL_POST DeleteSerialConsoleCommand = ''/serialconsole/delete''
       \<and> URL_POST DeleteRemotePowerCommand = ''/remotepower/delete''"
  using assms
  by (simp add: get_results forms_eq as_dict_def get_order_def fqdn_field_def)

theorem describe_returns_schema_witness:
  "\<not> unauthenticated (admin_post ''host01.example.com'')
   \<and> is_superuser (user (admin_post ''host01.example.com''))
   \<and> DeleteMachineCommand_get example_world (admin_post ''host01.example.com'')
       = (Inr (Input [(''fqdn'', [(''label'', ''FQDN''), (''type'', ''text''),
                                  (''required'', ''true'')])]
                 ''/machine/delete'' [''fqdn'']), example_world)
   \<and> DeleteSerialConsoleCommand_get example_world (admin_post ''host01.example.com'')
       = (Inr (Input [(''fqdn'', [(''label'', ''FQDN''), (''type'', ''text''),
                                  (''required'', ''true'')])]
                 ''/serialconsole/delete'' [''fqdn'']), example_world)
   \<and> DeleteRemotePowerCommand_get example_world (admin_post ''host01.example.com'')
       = (Inr (Input [(''fqdn'', [(''label'', ''FQDN''), (''type'', ''text''),
                                  (''required'', ''true'')])]
                 ''/remotepower/delete'' [''fqdn'']), example_world)"
proof -
  let ?r = "admin_post ''host01.example.com''"
  have h: "\<not> unauthenticated ?r" "is_superuser (user ?r)"
    by (simp_all add: admin_post_def post_request_def unauthenticated_def)
  from describe_returns_schema [OF h, of example_world] h
  show ?thesis
    by (simp add: get_results forms_eq as_dict_def get_order_def fqdn_field_def)
qed

lemma post_invalid:
  assumes "invalid_post [fqdn_field] request data"
  shows "DeleteMachineCommand_post w request =
           (Inr (ErrorMessage (newline @ ''fqdn: This field is required.'')), w)"
    and "DeleteSerialConsoleCommand_post w request =
           (Inr (ErrorMessage (newline @ ''fqdn: This field is required.'')), w)"
    and "DeleteRemotePowerCommand_post w request =
           (Inr (ErrorMessage (newline @ ''fqdn: This field is required.'')), w)"
    and "form_errors [fqdn_field] data = [(''fqdn'', ''This field is required.'')]"
  using assms
  by (auto simp: invalid_post_def DeleteMachineCommand_post_def
      DeleteSerialConsoleCommand_post_def DeleteRemotePowerCommand_post_def forms_eq
      is_valid_def form_errors_fqdn format_cli_form_errors_def field_message_def
      split: if_splits)

text \<open>
  C7. When a superuser posts a form that fails validation, each of the three execute
  operations answers with an error message made of a newline followed by the formatted
  form errors, and returns the world as it was: no lookup is made and nothing is
  changed. The form errors hold one entry per invalid field, in the order of the form (for
  these forms: the single field \<open>fqdn\<close>), and the formatted text joins the messages of
  the fields with newlines.
\<close>

theorem validation_precedes_lookup:
  "(invalid_post DeleteMachineAPIForm request data \<longrightarrow>
      DeleteMachineCommand_post w request =
        (Inr (ErrorMessage
           (newline @ format_cli_form_errors (form_errors DeleteMachineAPIForm data))), w) \<and>
      map fst (form_errors DeleteMachineAPIForm data) = [''fqdn''])
   \<and> (invalid_post DeleteSerialConsoleAPIForm request data \<longrightarrow>
      DeleteSerialConsoleCommand_post w request =
        (Inr (ErrorMessage
           (newline @ format_cli_form_errors (form_errors DeleteSerialConsoleAPIForm data))), w) \<and>
      map fst (form_errors DeleteSerialConsoleAPIForm data) = [''fqdn''])
   \<and> (invalid_post DeleteRemotePowerAPIForm request data \<longrightarrow>
      DeleteRemotePowerCommand_post w request =
        (Inr (ErrorMessage
           (newline @ format_cli_form_errors (form_errors DeleteRemotePowerAPIForm data))), w) \<and>
      map fst (form_errors DeleteRemotePowerAPIForm data) = [''fqdn''])
   \<and> map fst (form_errors f data)
        = map field_key (filter (\<lambda>s. field_error data s \<noteq> None) f)
   \<and> format_cli_form_errors [e1, e2] = field_message e1 @ newline @ field_message e2"
proof (intro conjI impI)
  assume "invalid_post DeleteMachineAPIForm request data"
  then have i: "invalid_post [fqdn_field] request data" by (simp add: forms_eq)
  show "DeleteMachineCommand_post w request =
        (Inr (ErrorMessage
           (newline @ format_cli_form_errors (form_errors DeleteMachineAPIForm data))), w)"
    by (simp add: post_invalid [OF i] forms_eq format_cli_form_errors_def field_message_def)
  show "map fst (form_errors DeleteMachineAPIForm data) = [''fqdn'']"
    by (simp add: post_invalid [OF i] forms_eq)
next
  assume "invalid_post DeleteSerialConsoleAPIForm request data"
  then have i: "invalid_post [fqdn_field] request data" by (simp add: forms_eq)
  show "DeleteSerialConsoleCommand_post w request =
        (Inr (ErrorMessage
           (newline @ format_cli_form_errors (form_errors DeleteSerialConsoleAPIForm data))), w)"
    by (simp add: post_invalid [OF i] forms_eq format_cli_form_errors_def field_message_def)
  show "map fst (form_errors DeleteSerialConsoleAPIForm data) = [''fqdn'']"
    by (simp add: post_invalid [OF i] forms_eq)
next
  assume "invalid_post DeleteRemotePowerAPIForm request data"
  then have i: "invalid_post [fqdn_field] request data" by (simp add: forms_eq)
  show "DeleteRemotePowerCommand_post w request =
        (Inr (ErrorMessage
           (newline @ format_cli_form_errors (form_errors DeleteRemotePowerAPIForm data))), w)"
    by (simp add: post_invalid [OF i] forms_eq format_cli_form_errors_def field_message_def)
  show "map fst (form_errors DeleteRemotePowerAPIForm data) = [''fqdn'']"
    by (simp add: post_invalid [OF i] forms_eq)
next
  show "map fst (form_errors f data)
        = map field_key (filter (\<lambda>s. field_error data s \<noteq> None) f)"
    by (rule form_errors_keys)
  show "format_cli_form_errors [e1, e2] = field_message e1 @ newline @ field_message e2"
    by (simp add: format_cli_form_errors_def)
qed

theorem validation_precedes_lookup_witness:
  "invalid_post DeleteMachineAPIForm (admin_post []) [(''fqdn'', [])]
   \<and> DeleteMachineCommand_post example_world (admin_post [])
       = (Inr (ErrorMessage
            (newline @ format_cli_form_errors (form_errors DeleteMachineAPIForm [(''fqdn'', [])]))),
          example_world)
   \<and> DeleteSerialConsoleCommand_post example_world (admin_post [])
       = (Inr (ErrorMessage
            (newline @
             format_cli_form_errors (form_errors DeleteSerialConsoleAPIForm [(''fqdn'', [])]))),
          example_world)
   \<and> DeleteRemotePowerCommand_post example_world (admin_post [])
       = (Inr (ErrorMessage
            (newline @
             format_cli_form_errors (form_errors DeleteRemotePowerAPIForm [(''fqdn'', [])]))),
          example_world)
   \<and> map fst (form_errors DeleteMachineAPIForm [(''fqdn'', [])]) = [''fqdn'']"
proof -
  have i: "invalid_post DeleteMachineAPIForm (admin_post []) [(''fqdn'', [])]"
    "invalid_post DeleteSerialConsoleAPIForm (admin_post []) [(''fqdn'', [])]"
    "invalid_post DeleteRemotePowerAPIForm (admin_post []) [(''fqdn'', [])]"
    by code_simp+
  note t = validation_precedes_lookup [of "admin_post []" "[(''fqdn'', [])]" example_world]
  note c1 = mp [OF t [THEN conjunct1] i(1)]
  note c2 = mp [OF t [THEN conjunct2, THEN conjunct1] i(2)]
  note c3 = mp [OF t [THEN conjunct2, THEN conjunct2, THEN conjunct1] i(3)]
  from i(1) c1 c2 c3 show ?thesis by blast
qed

section \<open>Execution with a valid form\<close>

lemma valid_postD:
  assumes "valid_post [fqdn_field] request name"
  shows "is_superuser (user request)"
    and "\<exists>data. loads_form request = Inr data \<and> is_valid [fqdn_field] data \<and>
           cleaned_data [fqdn_field] data = [(''fqdn'', name)]"
  using assms
  by (auto simp: valid_post_def cleaned_fqdn split: sum.splits)

lemma post_valid:
  assumes "valid_post [fqdn_field] request name"
  shows "DeleteMachineCommand_post w request = caught (machine_try w [(''fqdn'', name)])"
    and "DeleteSerialConsoleCommand_post w request =
           caught (serialconsole_try w [(''fqdn'', name)])"
    and "DeleteRemotePowerCommand_post w request =
           caught (remotepower_try w [(''fqdn'', name)])"
  using valid_postD [OF assms]
  by (auto simp: DeleteMachineCommand_post_def DeleteSerialConsoleCommand_post_def
      DeleteRemotePowerCommand_post_def forms_eq caught_def)

lemma get_found:
  "matches w name = [m] \<Longrightarrow> Machine_objects_get w name = (Inr m, record_call (Lookup name) w)"
  by (simp add: Machine_objects_get_def matches_def)

lemma get_missing:
  "matches w name = [] \<Longrightarrow>
   Machine_objects_get w name = (Inl DoesNotExist, record_call (Lookup name) w)"
  by (simp add: Machine_objects_get_def matches_def)

lemma machines_record_call [simp]: "machines (record_call e w) = machines w"
  by (simp add: record_call_def)

lemma calls_record_call [simp]: "calls (record_call e w) = calls w @ [e]"
  by (simp add: record_call_def)

lemma matches_record_call [simp]: "matches (record_call e w) name = matches w name"
  by (simp add: matches_def)

lemma remove_result:
  "remove (Backend out) w m =
     ((case out of Returns ok \<Rightarrow> Inr ok | Raises \<Rightarrow> Inl BackendError),
      record_call (Decommission (fqdn m)) w)"
  by (cases out) simp_all

lemma filter_single_remove1:
  assumes "filter P xs = [m]"
  shows "filter P (remove1 m xs) = []"
proof -
  have "filter P (remove1 m xs) = remove1 m (filter P xs)"
    by (rule filter_remove1)
  with assms show ?thesis by simp
qed

lemma machine_try_cases:
  assumes "matches w name = [m]"
  shows "machine_try w [(''fqdn'', name)] =
     (if is_virtual_machine m then
        (case get_hypervisor m of
           None \<Rightarrow> (Inl AttributeError, record_call (Lookup name) w)
         | Some h \<Rightarrow>
             (case virtualization_api h of
                None \<Rightarrow> (Inr (ErrorMessage ''No virtualization API found!''),
                          record_call (Lookup name) w)
              | Some (Backend Raises) \<Rightarrow>
                  (Inl BackendError,
                   record_call (Decommission (fqdn m)) (record_call (Lookup name) w))
              | Some (Backend (Returns False)) \<Rightarrow>
                  (Inl UnboundLocalError,
                   record_call (Decommission (fqdn m)) (record_call (Lookup name) w))
              | Some (Backend (Returns True)) \<Rightarrow>
                  (Inr (deleted_table (total (collected m), collected m)),
                   record_call (DeleteMachine (fqdn m))
                     ((record_call (Decommission (fqdn m)) (record_call (Lookup name) w))
                        \<lparr>machines := remove1 m (machines w)\<rparr>))))
      else
        (Inr (deleted_table (total (collected m), collected m)),
         record_call (DeleteMachine (fqdn m))
           ((record_call (Lookup name) w)\<lparr>machines := remove1 m (machines w)\<rparr>)))"
  using assms
  by (simp add: machine_try_def get_found machine_delete_def
      split: option.splits backend.splits remove_outcome.splits bool.splits)

lemma machine_table:
  assumes "valid_post DeleteMachineAPIForm request name"
    and "fst (DeleteMachineCommand_post w request) = Inr (Table th rows)"
  shows "\<exists>m. matches w name = [m] \<and>
           machines (snd (DeleteMachineCommand_post w request)) = remove1 m (machines w) \<and>
           Table th rows = deleted_table (total (collected m), collected m)"
proof -
  from assms(1) have v: "valid_post [fqdn_field] request name" by (simp add: forms_eq)
  note post = post_valid(1) [OF v]
  show ?thesis
  proof (cases "matches w name")
    case Nil
    with assms(2) show ?thesis
      by (simp add: post machine_try_def get_missing caught_def something_went_wrong_def)
  next
    case (Cons m ms)
    show ?thesis
    proof (cases ms)
      case Nil
      with Cons have found: "matches w name = [m]" by simp
      have "machines (snd (DeleteMachineCommand_post w request)) = remove1 m (machines w) \<and>
           Table th rows = deleted_table (total (collected m), collected m)"
        using assms(2) unfolding post machine_try_cases [OF found]
        by (auto simp: caught_def something_went_wrong_def
            split: if_splits option.splits backend.splits remove_outcome.splits bool.splits)
      with found show ?thesis by blast
    next
      case (Cons m' ms')
      with \<open>matches w name = m # ms\<close> assms(2) show ?thesis
        by (simp add: post machine_try_def Machine_objects_get_def matches_def
            caught_def something_went_wrong_def)
    qed
  qed
qed




section \<open>Deleting a machine\<close>

text \<open>
  C2. Executing machine-delete for a virtual machine whose hypervisor has no
  virtualization backend (\<open>virtualization_api\<close> is \<open>None\<close>) answers
  "No virtualization API found!"; the machine table is unchanged and still holds the
  machine; and repeating the same request any number of times gives the same answer
  and leaves the machine table unchanged.
\<close>

theorem no_backend_error:
  assumes "valid_post DeleteMachineAPIForm request name"
    and "matches w name = [m]"
    and "is_virtual_machine m"
    and "get_hypervisor m = Some h"
    and "virtualization_api h = None"
  shows "DeleteMachineCommand_post w request =
           (Inr (ErrorMessage ''No virtualization API found!''), record_call (Lookup name) w)
         \<and> machines (snd (DeleteMachineCommand_post w request)) = machines w
         \<and> m \<in> set (machines (snd (DeleteMachineCommand_post w request)))
         \<and> (\<forall>n. fst (DeleteMachineCommand_post
                  (((\<lambda>w'. snd (DeleteMachineCommand_post w' request)) ^^ n) w) request)
                = Inr (ErrorMessage ''No virtualization API found!'')
              \<and> machines (((\<lambda>w'. snd (DeleteMachineCommand_post w' request)) ^^ n) w)
                = machines w)"
proof -
  have step: "DeleteMachineCommand_post w' request =
      (Inr (ErrorMessage ''No virtualization API found!''), record_call (Lookup name) w')"
    if "matches w' name = [m]" for w'
    using that assms(1,3,4,5)
    by (simp add: post_valid forms_eq machine_try_def get_found caught_def)
  have iter: "matches (((\<lambda>w'. snd (DeleteMachineCommand_post w' request)) ^^ n) w) name = [m]
      \<and> machines (((\<lambda>w'. snd (DeleteMachineCommand_post w' request)) ^^ n) w) = machines w"
    for n
  proof (induction n)
    case 0
    show ?case using assms(2) by simp
  next
    case (Suc n)
    then show ?case by (simp add: step)
  qed
  have "m \<in> set (matches w name)" using assms(2) by simp
  then have "m \<in> set (machines w)" by (simp add: matches_def)
  with step [OF assms(2)] iter show ?thesis
    by (simp add: step)
qed

theorem no_backend_error_witness:
  "valid_post DeleteMachineAPIForm (admin_post ''VM01.example.com'') ''VM01.example.com''
   \<and> matches example_world ''VM01.example.com'' = [vm01]
   \<and> is_virtual_machine vm01
   \<and> get_hypervisor vm01 = Some \<lparr>virtualization_api = None\<rparr>
   \<and> DeleteMachineCommand_post example_world (admin_post ''VM01.example.com'')
       = (Inr (ErrorMessage ''No virtualization API found!''),
          record_call (Lookup ''VM01.example.com'') example_world)
   \<and> vm01 \<in> set (machines (snd (DeleteMachineCommand_post example_world
        (admin_post ''VM01.example.com''))))
   \<and> fst (DeleteMachineCommand_post
        (snd (DeleteMachineCommand_post example_world (admin_post ''VM01.example.com'')))
        (admin_post ''VM01.example.com''))
       = Inr (ErrorMessage ''No virtualization API found!'')"
proof -
  let ?r = "admin_post ''VM01.example.com''"
  have v: "valid_post DeleteMachineAPIForm ?r ''VM01.example.com''" by code_simp
  have m: "matches example_world ''VM01.example.com'' = [vm01]" by code_simp
  have vm: "is_virtual_machine vm01" by code_simp
  have h: "get_hypervisor vm01 = Some \<lparr>virtualization_api = None\<rparr>" by code_simp
  have api: "virtualization_api \<lparr>virtualization_api = None\<rparr> = None" by simp
  note t = no_backend_error [OF v m vm h api]
  from t have c1: "DeleteMachineCommand_post example_world ?r
       = (Inr (ErrorMessage ''No virtualization API found!''),
          record_call (Lookup ''VM01.example.com'') example_world)"
    by blast
  from t have c2: "vm01 \<in> set (machines (snd (DeleteMachineCommand_post example_world ?r)))"
    by blast
  from t have "fst (DeleteMachineCommand_post
      (((\<lambda>w'. snd (DeleteMachineCommand_post w' ?r)) ^^ Suc 0) example_world) ?r)
      = Inr (ErrorMessage ''No virtualization API found!'')"
    by blast
  then have c3: "fst (DeleteMachineCommand_post
      (snd (DeleteMachineCommand_post example_world ?r)) ?r)
      = Inr (ErrorMessage ''No virtualization API found!'')"
    by (simp only: funpow.simps o_apply id_apply)
  from v m vm h c1 c2 c3 show ?thesis by blast
qed

text \<open>
  C3. In machine-delete for a virtual machine the record is deleted only if the backend's
  \<open>remove\<close> call succeeds. When \<open>remove\<close> returns \<open>False\<close> or raises, the answer is the
  failure message "Something went wrong!", the machine table is unchanged, and the only
  calls made are the lookup and the \<open>remove\<close> call: no delete is issued and no table is
  reported. Conversely, whenever the machine table changes, a delete is issued or a
  table is reported, the machine's hypervisor has a backend whose \<open>remove\<close> returned
  \<open>True\<close>.
\<close>

theorem decommission_gates_delete:
  assumes "valid_post DeleteMachineAPIForm request name"
    and "matches w name = [m]"
    and "is_virtual_machine m"
  shows "(get_hypervisor m = Some h \<and> virtualization_api h = Some (Backend out) \<and>
          out \<noteq> Returns True \<longrightarrow>
            DeleteMachineCommand_post w request =
              (Inr (ErrorMessage ''Something went wrong!''),
               record_call (Decommission (fqdn m)) (record_call (Lookup name) w))
            \<and> machines (snd (DeleteMachineCommand_post w request)) = machines w
            \<and> calls (snd (DeleteMachineCommand_post w request))
                = calls w @ [Lookup name, Decommission (fqdn m)])
         \<and> (machines (snd (DeleteMachineCommand_post w request)) \<noteq> machines w \<or>
            DeleteMachine (fqdn m) \<in> set (calls (snd (DeleteMachineCommand_post w request)))
              - set (calls w) \<or>
            (\<exists>th rows. fst (DeleteMachineCommand_post w request) = Inr (Table th rows)) \<longrightarrow>
            (\<exists>h'. get_hypervisor m = Some h' \<and>
                  virtualization_api h' = Some (Backend (Returns True))))"
proof (intro conjI impI)
  assume h: "get_hypervisor m = Some h \<and> virtualization_api h = Some (Backend out) \<and>
          out \<noteq> Returns True"
  then show r: "DeleteMachineCommand_post w request =
              (Inr (ErrorMessage ''Something went wrong!''),
               record_call (Decommission (fqdn m)) (record_call (Lookup name) w))"
    using assms
    by (cases out)
      (auto simp: post_valid forms_eq machine_try_def get_found caught_def
        something_went_wrong_def)
  show "machines (snd (DeleteMachineCommand_post w request)) = machines w"
    by (simp add: r)
  show "calls (snd (DeleteMachineCommand_post w request))
      = calls w @ [Lookup name, Decommission (fqdn m)]"
    by (simp add: r)
next
  assume changed: "machines (snd (DeleteMachineCommand_post w request)) \<noteq> machines w \<or>
            DeleteMachine (fqdn m) \<in> set (calls (snd (DeleteMachineCommand_post w request)))
              - set (calls w) \<or>
            (\<exists>th rows. fst (DeleteMachineCommand_post w request) = Inr (Table th rows))"
  show "\<exists>h'. get_hypervisor m = Some h' \<and> virtualization_api h' = Some (Backend (Returns True))"
  proof (rule ccontr)
    assume no: "\<not> ?thesis"
    have "machines (snd (DeleteMachineCommand_post w request)) = machines w
      \<and> DeleteMachine (fqdn m) \<notin> set (calls (snd (DeleteMachineCommand_post w request)))
              - set (calls w)
      \<and> (\<forall>th rows. fst (DeleteMachineCommand_post w request) \<noteq> Inr (Table th rows))"
    proof (cases "get_hypervisor m")
      case None
      with assms show ?thesis
        by (simp add: post_valid forms_eq machine_try_def get_found caught_def
            something_went_wrong_def)
    next
      case (Some h')
      show ?thesis
      proof (cases "virtualization_api h'")
        case None
        with Some assms show ?thesis
          by (simp add: post_valid forms_eq machine_try_def get_found caught_def)
      next
        case (Some b)
        obtain out' where b: "b = Backend out'" by (cases b)
        with no Some \<open>get_hypervisor m = Some h'\<close> have "out' \<noteq> Returns True" by auto
        with b Some \<open>get_hypervisor m = Some h'\<close> assms show ?thesis
          by (cases out')
            (auto simp: post_valid forms_eq machine_try_def get_found caught_def
              something_went_wrong_def)
      qed
    qed
    with changed show False by blast
  qed
qed

theorem decommission_gates_delete_witness:
  "valid_post DeleteMachineAPIForm (admin_post ''vm02.example.com'') ''vm02.example.com''
   \<and> matches example_world ''vm02.example.com'' = [vm02]
   \<and> is_virtual_machine vm02
   \<and> get_hypervisor vm02 = Some \<lparr>virtualization_api = Some (Backend (Returns False))\<rparr>
   \<and> DeleteMachineCommand_post example_world (admin_post ''vm02.example.com'')
       = (Inr (ErrorMessage ''Something went wrong!''),
          record_call (Decommission ''vm02.example.com'')
            (record_call (Lookup ''vm02.example.com'') example_world))
   \<and> machines (snd (DeleteMachineCommand_post example_world (admin_post ''vm02.example.com'')))
       = machines example_world
   \<and> matches example_world ''vm03.example.com'' = [vm03]
   \<and> get_hypervisor vm03 = Some \<lparr>virtualization_api = Some (Backend Raises)\<rparr>
   \<and> DeleteMachineCommand_post example_world (admin_post ''vm03.example.com'')
       = (Inr (ErrorMessage ''Something went wrong!''),
          record_call (Decommission ''vm03.example.com'')
            (record_call (Lookup ''vm03.example.com'') example_world))
   \<and> matches example_world ''vm04.example.com'' = [vm04]
   \<and> machines (snd (DeleteMachineCommand_post example_world (admin_post ''vm04.example.com'')))
       \<noteq> machines example_world
   \<and> (\<exists>h'. get_hypervisor vm04 = Some h' \<and>
         virtualization_api h' = Some (Backend (Returns True)))"
proof -
  have v2: "valid_post DeleteMachineAPIForm (admin_post ''vm02.example.com'') ''vm02.example.com''"
    by code_simp
  have m2: "matches example_world ''vm02.example.com'' = [vm02]" by code_simp
  have vm2: "is_virtual_machine vm02" by code_simp
  have h2: "get_hypervisor vm02 = Some \<lparr>virtualization_api = Some (Backend (Returns False))\<rparr>"
    by code_simp
  have v3: "valid_post DeleteMachineAPIForm (admin_post ''vm03.example.com'') ''vm03.example.com''"
    by code_simp
  have m3: "matches example_world ''vm03.example.com'' = [vm03]" by code_simp
  have vm3: "is_virtual_machine vm03" by code_simp
  have h3: "get_hypervisor vm03 = Some \<lparr>virtualization_api = Some (Backend Raises)\<rparr>"
    by code_simp
  have v4: "valid_post DeleteMachineAPIForm (admin_post ''vm04.example.com'') ''vm04.example.com''"
    by code_simp
  have m4: "matches example_world ''vm04.example.com'' = [vm04]" by code_simp
  have vm4: "is_virtual_machine vm04" by code_simp
  have c4: "machines (snd (DeleteMachineCommand_post example_world
      (admin_post ''vm04.example.com''))) \<noteq> machines example_world"
    by code_simp
  from decommission_gates_delete
    [OF v2 m2 vm2, of "\<lparr>virtualization_api = Some (Backend (Returns False))\<rparr>" "Returns False"] h2
  have r2: "DeleteMachineCommand_post example_world (admin_post ''vm02.example.com'')
       = (Inr (ErrorMessage ''Something went wrong!''),
          record_call (Decommission (fqdn vm02))
            (record_call (Lookup ''vm02.example.com'') example_world))"
    by simp
  from decommission_gates_delete
    [OF v3 m3 vm3, of "\<lparr>virtualization_api = Some (Backend Raises)\<rparr>" Raises] h3
  have r3: "DeleteMachineCommand_post example_world (admin_post ''vm03.example.com'')
       = (Inr (ErrorMessage ''Something went wrong!''),
          record_call (Decommission (fqdn vm03))
            (record_call (Lookup ''vm03.example.com'') example_world))"
    by simp
  from decommission_gates_delete [OF v4 m4 vm4] c4
  have r4: "\<exists>h'. get_hypervisor vm04 = Some h' \<and>
         virtualization_api h' = Some (Backend (Returns True))"
    by blast
  have f: "fqdn vm02 = ''vm02.example.com''" "fqdn vm03 = ''vm03.example.com''"
    by (simp_all add: vm02_def vm03_def)
  from v2 m2 vm2 h2 r2 m3 h3 r3 m4 c4 r4 f show ?thesis by simp
qed

text \<open>
  C5. When the validated name matches no stored machine, each of the three execute
  operations answers "Something went wrong!": the \<open>DoesNotExist\<close> of the lookup is caught
  by the blanket handler, and the only call made is the lookup. In particular, after a
  machine-delete that reported a table, the name matches no machine any more, and the
  same request executed again answers "Something went wrong!", not a table.
\<close>

theorem lookup_failure_is_opaque:
  "(valid_post DeleteMachineAPIForm request name \<and> matches w name = [] \<longrightarrow>
      DeleteMachineCommand_post w request =
        (Inr (ErrorMessage ''Something went wrong!''), record_call (Lookup name) w))
   \<and> (valid_post DeleteSerialConsoleAPIForm request name \<and> matches w name = [] \<longrightarrow>
      DeleteSerialConsoleCommand_post w request =
        (Inr (ErrorMessage ''Something went wrong!''), record_call (Lookup name) w))
   \<and> (valid_post DeleteRemotePowerAPIForm request name \<and> matches w name = [] \<longrightarrow>
      DeleteRemotePowerCommand_post w request =
        (Inr (ErrorMessage ''Something went wrong!''), record_call (Lookup name) w))
   \<and> (valid_post DeleteMachineAPIForm request name \<and>
      fst (DeleteMachineCommand_post w request) = Inr (Table th rows) \<longrightarrow>
      matches (snd (DeleteMachineCommand_post w request)) name = [] \<and>
      DeleteMachineCommand_post (snd (DeleteMachineCommand_post w request)) request =
        (Inr (ErrorMessage ''Something went wrong!''),
         record_call (Lookup name) (snd (DeleteMachineCommand_post w request))))"
proof (intro conjI impI)
  assume h: "valid_post DeleteMachineAPIForm request name \<and> matches w name = []"
  then have v: "valid_post [fqdn_field] request name" by (simp add: forms_eq)
  from h show "DeleteMachineCommand_post w request =
        (Inr (ErrorMessage ''Something went wrong!''), record_call (Lookup name) w)"
    by (simp add: post_valid [OF v] machine_try_def get_missing caught_def
        something_went_wrong_def)
next
  assume h: "valid_post DeleteSerialConsoleAPIForm request name \<and> matches w name = []"
  then have v: "valid_post [fqdn_field] request name" by (simp add: forms_eq)
  from h show "DeleteSerialConsoleCommand_post w request =
        (Inr (ErrorMessage ''Something went wrong!''), record_call (Lookup name) w)"
    by (simp add: post_valid [OF v] serialconsole_try_def get_missing caught_def
        something_went_wrong_def)
next
  assume h: "valid_post DeleteRemotePowerAPIForm request name \<and> matches w name = []"
  then have v: "valid_post [fqdn_field] request name" by (simp add: forms_eq)
  from h show "DeleteRemotePowerCommand_post w request =
        (Inr (ErrorMessage ''Something went wrong!''), record_call (Lookup name) w)"
    by (simp add: post_valid [OF v] remotepower_try_def get_missing caught_def
        something_went_wrong_def)
next
  assume h: "valid_post DeleteMachineAPIForm request name \<and>
      fst (DeleteMachineCommand_post w request) = Inr (Table th rows)"
  then have v: "valid_post [fqdn_field] request name" by (simp add: forms_eq)
  from h obtain m where m: "matches w name = [m]"
    "machines (snd (DeleteMachineCommand_post w request)) = remove1 m (machines w)"
    using machine_table by blast
  then show gone: "matches (snd (DeleteMachineCommand_post w request)) name = []"
    by (simp add: matches_def filter_single_remove1)
  show "DeleteMachineCommand_post (snd (DeleteMachineCommand_post w request)) request =
        (Inr (ErrorMessage ''Something went wrong!''),
         record_call (Lookup name) (snd (DeleteMachineCommand_post w request)))"
    by (simp add: post_valid(1) [OF v, of "snd (DeleteMachineCommand_post w request)"]
        machine_try_def get_missing [OF gone] caught_def something_went_wrong_def)
qed

theorem lookup_failure_is_opaque_witness:
  "valid_post DeleteMachineAPIForm (admin_post ''ghost.example.com'') ''ghost.example.com''
   \<and> matches example_world ''ghost.example.com'' = []
   \<and> DeleteMachineCommand_post example_world (admin_post ''ghost.example.com'')
       = (Inr (ErrorMessage ''Something went wrong!''),
          record_call (Lookup ''ghost.example.com'') example_world)
   \<and> DeleteSerialConsoleCommand_post example_world (admin_post ''ghost.example.com'')
       = (Inr (ErrorMessage ''Something went wrong!''),
          record_call (Lookup ''ghost.example.com'') example_world)
   \<and> DeleteRemotePowerCommand_post example_world (admin_post ''ghost.example.com'')
       = (Inr (ErrorMessage ''Something went wrong!''),
          record_call (Lookup ''ghost.example.com'') example_world)
   \<and> fst (DeleteMachineCommand_post example_world (admin_post ''host01.example.com''))
       = Inr (Table [(''objects'', ''Deleted objects''), (''count'', ''#'')]
                [\<lparr>objects = ''Machine'', count = 1\<rparr>,
                 \<lparr>objects = ''NetworkInterface'', count = 2\<rparr>])
   \<and> fst (DeleteMachineCommand_post
        (snd (DeleteMachineCommand_post example_world (admin_post ''host01.example.com'')))
        (admin_post ''host01.example.com''))
       = Inr (ErrorMessage ''Something went wrong!'')"
proof -
  let ?g = "''ghost.example.com''"
  have vg: "valid_post DeleteMachineAPIForm (admin_post ?g) ?g"
    "valid_post DeleteSerialConsoleAPIForm (admin_post ?g) ?g"
    "valid_post DeleteRemotePowerAPIForm (admin_post ?g) ?g"
    by code_simp+
  have mg: "matches example_world ?g = []" by code_simp
  have v1: "valid_post DeleteMachineAPIForm (admin_post ''host01.example.com'')
      ''host01.example.com''"
    by code_simp
  have t1: "fst (DeleteMachineCommand_post example_world (admin_post ''host01.example.com''))
       = Inr (Table [(''objects'', ''Deleted objects''), (''count'', ''#'')]
                [\<lparr>objects = ''Machine'', count = 1\<rparr>,
                 \<lparr>objects = ''NetworkInterface'', count = 2\<rparr>])"
    by code_simp
  note g = lookup_failure_is_opaque [of "admin_post ?g" ?g example_world]
  note h = lookup_failure_is_opaque
    [of "admin_post ''host01.example.com''" "''host01.example.com''" example_world
        "[(''objects'', ''Deleted objects''), (''count'', ''#'')]"
        "[\<lparr>objects = ''Machine'', count = 1\<rparr>, \<lparr>objects = ''NetworkInterface'', count = 2\<rparr>]"]
  from vg mg g v1 t1 h show ?thesis by simp
qed

section \<open>Deleting a sub-resource\<close>

text \<open>
  C6. For a machine without a serial console, serialconsole-delete on its name answers
  "Machine has no serial console!" and leaves the machine table unchanged; for a machine
  without remote power, remotepower-delete answers "Machine has no remote power!" and
  leaves the machine table unchanged. The only call made is the lookup.
\<close>

theorem missing_sub_resource:
  "(valid_post DeleteSerialConsoleAPIForm request name \<and> matches w name = [m] \<and>
      \<not> has_serialconsole m \<longrightarrow>
      DeleteSerialConsoleCommand_post w request =
        (Inr (ErrorMessage ''Machine has no serial console!''), record_call (Lookup name) w) \<and>
      machines (snd (DeleteSerialConsoleCommand_post w request)) = machines w)
   \<and> (valid_post DeleteRemotePowerAPIForm request name \<and> matches w name = [m] \<and>
      \<not> has_remotepower m \<longrightarrow>
      DeleteRemotePowerCommand_post w request =
        (Inr (ErrorMessage ''Machine has no remote power!''), record_call (Lookup name) w) \<and>
      machines (snd (DeleteRemotePowerCommand_post w request)) = machines w)"
proof (intro conjI impI)
  assume h: "valid_post DeleteSerialConsoleAPIForm request name \<and> matches w name = [m] \<and>
      \<not> has_serialconsole m"
  then have v: "valid_post [fqdn_field] request name" by (simp add: forms_eq)
  from h show r: "DeleteSerialConsoleCommand_post w request =
        (Inr (ErrorMessage ''Machine has no serial console!''), record_call (Lookup name) w)"
    by (simp add: post_valid [OF v] serialconsole_try_def get_found caught_def)
  show "machines (snd (DeleteSerialConsoleCommand_post w request)) = machines w"
    by (simp add: r)
next
  assume h: "valid_post DeleteRemotePowerAPIForm request name \<and> matches w name = [m] \<and>
      \<not> has_remotepower m"
  then have v: "valid_post [fqdn_field] request name" by (simp add: forms_eq)
  from h show r: "DeleteRemotePowerCommand_post w request =
        (Inr (ErrorMessage ''Machine has no remote power!''), record_call (Lookup name) w)"
    by (simp add: post_valid [OF v] remotepower_try_def get_found caught_def)
  show "machines (snd (DeleteRemotePowerCommand_post w request)) = machines w"
    by (simp add: r)
qed

theorem missing_sub_resource_witness:
  "valid_post DeleteSerialConsoleAPIForm (admin_post ''Host01.Example.Com'') ''Host01.Example.Com''
   \<and> valid_post DeleteRemotePowerAPIForm (admin_post ''Host01.Example.Com'') ''Host01.Example.Com''
   \<and> matches example_world ''Host01.Example.Com'' = [host01]
   \<and> \<not> has_serialconsole host01 \<and> \<not> has_remotepower host01
   \<and> DeleteSerialConsoleCommand_post example_world (admin_post ''Host01.Example.Com'')
       = (Inr (ErrorMessage ''Machine has no serial console!''),
          record_call (Lookup ''Host01.Example.Com'') example_world)
   \<and> DeleteRemotePowerCommand_post example_world (admin_post ''Host01.Example.Com'')
       = (Inr (ErrorMessage ''Machine has no remote power!''),
          record_call (Lookup ''Host01.Example.Com'') example_world)"
proof -
  let ?n = "''Host01.Example.Com''"
  have v: "valid_post DeleteSerialConsoleAPIForm (admin_post ?n) ?n"
    "valid_post DeleteRemotePowerAPIForm (admin_post ?n) ?n"
    by code_simp+
  have m: "matches example_world ?n = [host01]" by code_simp
  have n: "\<not> has_serialconsole host01" "\<not> has_remotepower host01" by code_simp+
  from v m n missing_sub_resource [of "admin_post ?n" ?n example_world host01]
  show ?thesis by simp
qed

section \<open>The table of deleted objects\<close>








end
